theory Spec2Isabelle
  imports Complex_Main "HOL-Library.Word"
begin

unbundle bit_operations_syntax

section \<open>Python values and errors\<close>

text \<open>
  The service is one Python module, \<^verbatim>\<open>server/main.py\<close>. Its functions are embedded
  as HOL functions. Every exception the module can raise or let escape is a value: an
  \<open>HTTPException\<close> with its status code and the literal prefix of its detail text
  (the formatted message of the underlying exception is left out), or an exception no
  handler of the module catches, which the web framework answers with status 500.
\<close>

datatype exn =
    InvalidDicomError | UnidentifiedImageError | FileNotFoundError | NotImplementedError
  | AttributeError | TypeError | ValueError | ZeroDivisionError

datatype error = HTTPException nat string | Unhandled exn

fun status_code :: "error \<Rightarrow> nat" where
  "status_code (HTTPException s d) = s"
| "status_code (Unhandled e) = 500"

text \<open>
  \<^verbatim>\<open>json.loads\<close> yields dictionaries, lists, strings, numbers, booleans and
  \<^verbatim>\<open>None\<close>. A dictionary is the list of its items (keys distinct). Python floats are
  idealised as exact rationals: rounding, overflow and the non-finite values are outside
  this type.
\<close>

datatype json =
    JNull | JBool bool | JInt int | JFloat rat | JStr string
  | JArr "json list" | JObj "(string \<times> json) list"

text \<open>\<^verbatim>\<open>d.get(k, default)\<close>: only a dictionary has the method.\<close>

fun py_get :: "json \<Rightarrow> string \<Rightarrow> json \<Rightarrow> exn + json" where
  "py_get (JObj d) k dflt = Inr (case map_of d k of Some v \<Rightarrow> v | None \<Rightarrow> dflt)"
| "py_get v k dflt = Inl AttributeError"

text \<open>Truth value of a Python object, as \<^verbatim>\<open>if label:\<close> tests it.\<close>

fun truthy :: "json \<Rightarrow> bool" where
  "truthy JNull = False"
| "truthy (JBool b) = b"
| "truthy (JInt i) = (i \<noteq> 0)"
| "truthy (JFloat r) = (r \<noteq> 0)"
| "truthy (JStr s) = (s \<noteq> [])"
| "truthy (JArr xs) = (xs \<noteq> [])"
| "truthy (JObj d) = (d \<noteq> [])"

subsection \<open>Strings\<close>

definition lower_char :: "char \<Rightarrow> char" where
  "lower_char c =
     (case map_of (zip ''ABCDEFGHIJKLMNOPQRSTUVWXYZ'' ''abcdefghijklmnopqrstuvwxyz'') c of
        Some l \<Rightarrow> l | None \<Rightarrow> c)"

definition lower :: "string \<Rightarrow> string" where
  "lower s = map lower_char s"

definition endswith :: "string \<Rightarrow> string \<Rightarrow> bool" where
  "endswith s suf = (length suf \<le> length s \<and> drop (length s - length suf) s = suf)"

text \<open>\<^verbatim>\<open>s.rsplit('.', 1)[-1]\<close>: what follows the last dot, or all of \<open>s\<close> without one.\<close>

definition rsplit_last :: "string \<Rightarrow> string" where
  "rsplit_last s = rev (takeWhile (\<lambda>c. c \<noteq> CHR ''.'') (rev s))"

definition digit_char :: "nat \<Rightarrow> char" where
  "digit_char d = ''0123456789'' ! d"

fun string_of_nat :: "nat \<Rightarrow> string" where
  "string_of_nat n =
     (if n < 10 then [digit_char n] else string_of_nat (n div 10) @ [digit_char (n mod 10)])"

declare string_of_nat.simps [simp del]

section \<open>Libraries and platform as parameters\<close>

text \<open>
  What the module obtains from its libraries and its platform is a parameter of the
  model, collected in one record:
  \<^item> \<open>dcmread\<close>: pydicom on the uploaded bytes, an exception or a data set;
  \<^item> \<open>image_open\<close>: PIL on the uploaded bytes, an exception or an image (PIL reads
    the pixel data only when the image is first used, at the resize of line 54; an
    error raised there escapes the module in the same way and is part of this result);
  \<^item> \<open>json_loads\<close>: the JSON parser, \<open>None\<close> when it raises;
  \<^item> \<open>float_of_str\<close>: Python's \<^verbatim>\<open>float\<close> on a string, \<open>None\<close> when it raises;
  \<^item> \<open>py_str\<close>: Python's \<^verbatim>\<open>str\<close> on a value that is not a string;
  \<^item> \<open>cast_undefined\<close>: the byte that \<^verbatim>\<open>astype(np.uint8)\<close> leaves for a value
    with no defined conversion (not a number, infinite or out of range);
  \<^item> \<open>logo_open\<close>: PIL on \<^verbatim>\<open>assets/logo.png\<close>, an exception or the mark's width
    and height in pixels;
  \<^item> \<open>now\<close>: the clock.
\<close>

type_synonym bytes = "8 word list"

datatype npfloat = Fin rat | PInf | NInf | NaN

datatype draw_op = Rectangle rat rat rat rat | Text rat rat string

text \<open>
  A PIL image is its decoded raster (width, height, mode, samples) under the library
  operations applied to it. Resampling, mode conversion and rasterising a rectangle or
  a label are the library's; they are kept as constructors.
\<close>

datatype pil =
    Raster nat nat string "8 word list"
  | Resized nat nat pil
  | Converted string pil
  | Drawn draw_op pil

fun pil_size :: "pil \<Rightarrow> nat \<times> nat" where
  "pil_size (Raster w h m d) = (w, h)"
| "pil_size (Resized w h i) = (w, h)"
| "pil_size (Converted m i) = pil_size i"
| "pil_size (Drawn d i) = pil_size i"

text \<open>
  A decoded DICOM data set, as far as \<^verbatim>\<open>process_dicom\<close> reads it:
  \<open>pixel_array\<close> is the result of line 33 (reading the pixel data and applying the
  value-of-interest transform), a two-dimensional array as the list of its rows;
  the attribute \<open>PhotometricInterpretation\<close> may be missing.
\<close>

record dicom =
  pixel_array :: "exn + rat list list"
  PhotometricInterpretation :: "string option"

record datetime =
  dt_year :: nat
  dt_month :: nat
  dt_day :: nat
  dt_hour :: nat
  dt_minute :: nat
  dt_second :: nat

record env =
  dcmread :: "bytes \<Rightarrow> exn + dicom"
  image_open :: "bytes \<Rightarrow> exn + pil"
  json_loads :: "string \<Rightarrow> json option"
  float_of_str :: "string \<Rightarrow> rat option"
  py_str :: "json \<Rightarrow> string"
  cast_undefined :: "npfloat \<Rightarrow> 8 word"
  logo_open :: "exn + nat \<times> nat"
  now :: datetime

text \<open>\<^verbatim>\<open>float(v)\<close> on a value of \<^verbatim>\<open>json.loads\<close>.\<close>

fun py_float :: "env \<Rightarrow> json \<Rightarrow> exn + rat" where
  "py_float E (JInt i) = Inr (of_int i)"
| "py_float E (JFloat r) = Inr r"
| "py_float E (JBool b) = Inr (if b then 1 else 0)"
| "py_float E (JStr s) = (case float_of_str E s of Some r \<Rightarrow> Inr r | None \<Rightarrow> Inl ValueError)"
| "py_float E v = Inl TypeError"

section \<open>Intensity normalisation: \<^verbatim>\<open>process_dicom\<close>\<close>

text \<open>
  numpy divides an array by a scalar element by element and does not raise on a zero
  divisor: it leaves not-a-number for \<open>0 / 0\<close> and an infinity for \<open>x / 0\<close>.
\<close>

definition np_div :: "rat \<Rightarrow> rat \<Rightarrow> npfloat" where
  "np_div a b =
     (if b = 0 then (if a = 0 then NaN else if 0 < a then PInf else NInf) else Fin (a / b))"

fun np_mul :: "npfloat \<Rightarrow> rat \<Rightarrow> npfloat" where
  "np_mul (Fin r) c = Fin (r * c)"
| "np_mul PInf c = (if c = 0 then NaN else if 0 < c then PInf else NInf)"
| "np_mul NInf c = (if c = 0 then NaN else if 0 < c then NInf else PInf)"
| "np_mul NaN c = NaN"

text \<open>
  \<^verbatim>\<open>astype(np.uint8)\<close> truncates towards zero; a value that does not truncate to a
  byte has no defined result.
\<close>

fun astype_uint8 :: "env \<Rightarrow> npfloat \<Rightarrow> 8 word" where
  "astype_uint8 E (Fin r) =
     (if - 1 < r \<and> r < 256 then (if 0 \<le> r then word_of_int \<lfloor>r\<rfloor> else 0)
      else cast_undefined E (Fin r))"
| "astype_uint8 E v = cast_undefined E v"

text \<open>Lines 34 and 35. \<^verbatim>\<open>min()\<close> of an array with no element raises.\<close>

definition rescale :: "env \<Rightarrow> rat list list \<Rightarrow> exn + 8 word list list" where
  "rescale E arr =
     (case concat arr of
        [] \<Rightarrow> Inl ValueError
      | v # vs \<Rightarrow>
          let mn = fold min vs v; mx = fold max vs v
          in Inr (map (map (\<lambda>x. astype_uint8 E (np_mul (np_div (x - mn) (mx - mn)) 255))) arr))"

definition np_invert :: "8 word list list \<Rightarrow> 8 word list list" where
  "np_invert arr = map (map (\<lambda>v. NOT v)) arr"

definition fromarray :: "8 word list list \<Rightarrow> pil" where
  "fromarray arr =
     Raster (case arr of [] \<Rightarrow> 0 | r # rs \<Rightarrow> length r) (length arr) ''L'' (concat arr)"

text \<open>The handler of line 39 catches \<^verbatim>\<open>InvalidDicomError\<close> and nothing else.\<close>

definition dicom_handler :: "exn \<Rightarrow> error" where
  "dicom_handler e =
     (if e = InvalidDicomError then HTTPException 400 ''DICOM processing error''
      else Unhandled e)"

definition process_dicom :: "env \<Rightarrow> bytes \<Rightarrow> error + pil" where
  "process_dicom E file_stream =
     (case dcmread E file_stream of
        Inl e \<Rightarrow> Inl (dicom_handler e)
      | Inr d \<Rightarrow>
          (case pixel_array d of
             Inl e \<Rightarrow> Inl (dicom_handler e)
           | Inr arr \<Rightarrow>
               (case rescale E arr of
                  Inl e \<Rightarrow> Inl (dicom_handler e)
                | Inr arr8 \<Rightarrow>
                    (case PhotometricInterpretation d of
                       None \<Rightarrow> Inl (dicom_handler AttributeError)
                     | Some p \<Rightarrow>
                         Inr (fromarray
                                (if p = ''MONOCHROME1'' then np_invert arr8 else arr8))))))"

section \<open>Annotation: \<^verbatim>\<open>process_image\<close>\<close>

text \<open>
  PIL images are mutable objects: \<^verbatim>\<open>ImageDraw\<close> draws into the image it was
  created for. Objects live in a store, and a variable of the source holds an address.
  The store is total: a cell that was never allocated holds whatever it holds, and no
  function below reads one.
\<close>

type_synonym addr = nat

record heap =
  objs :: "addr \<Rightarrow> pil"
  next_addr :: addr

definition alloc :: "pil \<Rightarrow> heap \<Rightarrow> addr \<times> heap" where
  "alloc v h =
     (next_addr h, h\<lparr>objs := (objs h)(next_addr h := v), next_addr := Suc (next_addr h)\<rparr>)"

text \<open>\<^verbatim>\<open>im.copy()\<close>: a new object with the same content.\<close>

definition copy_obj :: "addr \<Rightarrow> heap \<Rightarrow> addr \<times> heap" where
  "copy_obj a h = alloc (objs h a) h"

text \<open>A drawing call changes the object at the address the draw handle was made for.\<close>

definition draw_on :: "addr \<Rightarrow> draw_op \<Rightarrow> heap \<Rightarrow> heap" where
  "draw_on a d h = h\<lparr>objs := (objs h)(a := Drawn d (objs h a))\<rparr>"

record upload =
  filename :: string
  file_bytes :: bytes

text \<open>Lines 43 to 50: the image is decoded by the suffix of the file's name.\<close>

definition load_image :: "env \<Rightarrow> upload \<Rightarrow> error + pil" where
  "load_image E file =
     (let ext = lower (rsplit_last (filename file)); content = file_bytes file
      in if ext = ''dcm'' \<or> ext = ''dicom'' \<or> ext = ''dic'' then process_dicom E content
         else if ext = ''png'' then
           (case image_open E content of Inl e \<Rightarrow> Inl (Unhandled e) | Inr img \<Rightarrow> Inr img)
         else Inl (HTTPException 400 ''Unsupported file format''))"

text \<open>\<^verbatim>\<open>float(bbox.get(k, 0))\<close>, as lines 64 to 67 read each field.\<close>

definition bbox_float :: "env \<Rightarrow> json \<Rightarrow> string \<Rightarrow> exn + rat" where
  "bbox_float E bbox k =
     (case py_get bbox k (JInt 0) of Inl e \<Rightarrow> Inl e | Inr v \<Rightarrow> py_float E v)"

text \<open>
  Lines 69 to 71, reached with the four scaled numbers. PIL draws a text that is a
  string and raises on any other object.
\<close>

definition draw_box :: "addr \<Rightarrow> json \<Rightarrow> rat \<Rightarrow> rat \<Rightarrow> rat \<Rightarrow> rat \<Rightarrow> heap \<Rightarrow> exn + heap" where
  "draw_box ann label x y w h st =
     (if 0 < w \<and> 0 < h then
        (let st1 = draw_on ann (Rectangle x y (x + w) (y + h)) st
         in if truthy label then
              (case label of
                 JStr s \<Rightarrow> Inr (draw_on ann (Text x (max (y - 14) 0) s) st1)
               | _ \<Rightarrow> Inl TypeError)
            else Inr st1)
      else Inr st)"

text \<open>
  Lines 64 to 67: the four fields are read and scaled in this order, and the first
  that \<^verbatim>\<open>float\<close> rejects ends the body.
\<close>

definition scaled_bbox :: "env \<Rightarrow> rat \<Rightarrow> rat \<Rightarrow> json \<Rightarrow> exn + rat \<times> rat \<times> rat \<times> rat" where
  "scaled_bbox E sx sy bbox =
     (case bbox_float E bbox ''x'' of Inl e \<Rightarrow> Inl e | Inr fx \<Rightarrow>
      (case bbox_float E bbox ''y'' of Inl e \<Rightarrow> Inl e | Inr fy \<Rightarrow>
       (case bbox_float E bbox ''width'' of Inl e \<Rightarrow> Inl e | Inr fw \<Rightarrow>
        (case bbox_float E bbox ''height'' of Inl e \<Rightarrow> Inl e | Inr fh \<Rightarrow>
           Inr (fx * sx, fy * sy, fw * sx, fh * sy)))))"

text \<open>The body of the \<^verbatim>\<open>try\<close> of lines 63 to 71.\<close>

definition try_body :: "env \<Rightarrow> rat \<Rightarrow> rat \<Rightarrow> addr \<Rightarrow> json \<Rightarrow> json \<Rightarrow> heap \<Rightarrow> exn + heap" where
  "try_body E sx sy ann bbox label st =
     (case scaled_bbox E sx sy bbox of
        Inl e \<Rightarrow> Inl e
      | Inr (x, y, w, h) \<Rightarrow> draw_box ann label x y w h st)"

text \<open>
  One round of the loop of line 60. The two \<^verbatim>\<open>ab.get\<close> of lines 61 and 62 stand
  before the \<^verbatim>\<open>try\<close>; every exception of the body becomes status 400.
\<close>

definition draw_one :: "env \<Rightarrow> rat \<Rightarrow> rat \<Rightarrow> addr \<Rightarrow> json \<Rightarrow> heap \<Rightarrow> error + heap" where
  "draw_one E sx sy ann ab st =
     (case py_get ab ''bbox'' (JObj []) of Inl e \<Rightarrow> Inl (Unhandled e) | Inr bbox \<Rightarrow>
      (case py_get ab ''name'' (JStr []) of Inl e \<Rightarrow> Inl (Unhandled e) | Inr label \<Rightarrow>
       (case try_body E sx sy ann bbox label st of
          Inl e \<Rightarrow> Inl (HTTPException 400 ''Invalid bbox'')
        | Inr st' \<Rightarrow> Inr st')))"

fun draw_all :: "env \<Rightarrow> rat \<Rightarrow> rat \<Rightarrow> addr \<Rightarrow> json list \<Rightarrow> heap \<Rightarrow> error + heap" where
  "draw_all E sx sy ann [] st = Inr st"
| "draw_all E sx sy ann (ab # rest) st =
     (case draw_one E sx sy ann ab st of
        Inl e \<Rightarrow> Inl e
      | Inr st' \<Rightarrow> draw_all E sx sy ann rest st')"

definition target :: nat where
  "target = 1024"

text \<open>Line 59: \<^verbatim>\<open>sx, sy = target / orig_w, target / orig_h\<close>.\<close>

definition scale_factors :: "nat \<Rightarrow> nat \<Rightarrow> exn + rat \<times> rat" where
  "scale_factors orig_w orig_h =
     (if orig_w = 0 \<or> orig_h = 0 then Inl ZeroDivisionError
      else Inr (of_nat target / of_nat orig_w, of_nat target / of_nat orig_h))"

text \<open>Lines 52 to 74, from the decoded image on.\<close>

definition annotate :: "env \<Rightarrow> pil \<Rightarrow> json list \<Rightarrow> heap \<Rightarrow> error + (addr \<times> addr) \<times> heap" where
  "annotate E img abnormalities st =
     (let (orig_w, orig_h) = pil_size img;
          (img_resized, st1) = alloc (Converted ''RGB'' (Resized target target img)) st;
          (annotated, st2) = copy_obj img_resized st1
      in case scale_factors orig_w orig_h of
           Inl e \<Rightarrow> Inl (Unhandled e)
         | Inr (sx, sy) \<Rightarrow>
             (case draw_all E sx sy annotated abnormalities st2 of
                Inl e \<Rightarrow> Inl e
              | Inr st3 \<Rightarrow> Inr ((img_resized, annotated), st3)))"

definition process_image ::
  "env \<Rightarrow> upload \<Rightarrow> json list \<Rightarrow> heap \<Rightarrow> error + (addr \<times> addr) \<times> heap" where
  "process_image E file abnormalities st =
     (case load_image E file of
        Inl e \<Rightarrow> Inl e
      | Inr img \<Rightarrow> annotate E img abnormalities st)"

section \<open>The document: \<^verbatim>\<open>fetch_logo\<close>, \<^verbatim>\<open>_add_page_decorations\<close>, \<^verbatim>\<open>generate_pdf_report\<close>\<close>

text \<open>Lengths are in points: \<^verbatim>\<open>inch\<close> is 72 and \<^verbatim>\<open>letter\<close> is 612 by 792.\<close>

definition inch :: rat where
  "inch = 72"

definition letter :: "rat \<times> rat" where
  "letter = (612, 792)"

record doc_template =
  leftMargin :: rat
  rightMargin :: rat
  topMargin :: rat
  bottomMargin :: rat

datatype canvas_op =
    SaveState
  | DrawImage rat rat rat rat
  | SetFont string nat
  | DrawRightString rat rat string
  | DrawCentredString rat rat string
  | RestoreState

text \<open>
  Lines 76 to 100. Every exception of the body becomes an \<^verbatim>\<open>HTTPException\<close> of
  status 500; the buffer returned is the flattened mark, kept as its pixel size.
\<close>

definition fetch_logo :: "env \<Rightarrow> error + (nat \<times> nat) \<times> (rat \<times> rat)" where
  "fetch_logo E =
     (case logo_open E of
        Inl e \<Rightarrow> Inl (HTTPException 500 ''Logo load failed'')
      | Inr (img_width, img_height) \<Rightarrow>
          if img_width = 0 then Inl (HTTPException 500 ''Logo load failed'')
          else
            (let disp_w = (3 / 2) * inch;
                 aspect = of_nat img_height / of_nat img_width;
                 disp_h = disp_w * aspect
             in Inr ((img_width, img_height), (disp_w, disp_h))))"

definition pad :: "nat \<Rightarrow> string \<Rightarrow> string" where
  "pad k s = replicate (k - length s) (CHR ''0'') @ s"

text \<open>\<^verbatim>\<open>strftime('Date: %Y-%m-%d')\<close> and \<^verbatim>\<open>strftime('Time: %H:%M:%S')\<close>.\<close>

definition date_text :: "datetime \<Rightarrow> string" where
  "date_text d =
     ''Date: '' @ pad 4 (string_of_nat (dt_year d)) @ ''-'' @ pad 2 (string_of_nat (dt_month d))
       @ ''-'' @ pad 2 (string_of_nat (dt_day d))"

definition time_text :: "datetime \<Rightarrow> string" where
  "time_text d =
     ''Time: '' @ pad 2 (string_of_nat (dt_hour d)) @ '':'' @ pad 2 (string_of_nat (dt_minute d))
       @ '':'' @ pad 2 (string_of_nat (dt_second d))"

definition footer :: string where
  "footer = ''This is an AI generated report. The findings are to be used for diagnostic purposes ''
     @ ''in consultation with a licensed medical expert.''"

text \<open>
  Lines 107 to 119: the mark is drawn inside a \<^verbatim>\<open>try\<close> whose bare
  \<^verbatim>\<open>except\<close> discards every exception.
\<close>

definition draw_logo :: "env \<Rightarrow> doc_template \<Rightarrow> canvas_op list" where
  "draw_logo E doc =
     (case fetch_logo E of
        Inl e \<Rightarrow> []
      | Inr (logo_buf, (lw, lh)) \<Rightarrow> [DrawImage (leftMargin doc) (snd letter - lh - 10) lw lh])"

text \<open>
  Lines 102 to 135: the operations the decorator performs on the canvas of the page
  numbered \<open>page_no\<close>. The two readings of the clock are taken to be the same instant.
\<close>

definition add_page_decorations :: "env \<Rightarrow> doc_template \<Rightarrow> nat \<Rightarrow> canvas_op list" where
  "add_page_decorations E doc page_no =
     (let (w, h) = letter
      in [SaveState]
         @ (if page_no = 1 then
              draw_logo E doc
              @ [SetFont ''Helvetica'' 10,
                 DrawRightString (w - rightMargin doc) (h - topMargin doc + 20) (date_text (now E)),
                 DrawRightString (w - rightMargin doc) (h - topMargin doc + 4) (time_text (now E))]
            else [])
         @ [SetFont ''Helvetica'' 8,
            DrawCentredString (w / 2) (bottomMargin doc / 2) footer,
            RestoreState])"

datatype style = Header | SectionHeader | SubHeader | CustomNormal

datatype flowable =
    Spacer nat nat
  | Paragraph string style
  | Table "cell list list"
  | PageBreak
  | RLImage pil rat rat
and cell = CellText string | CellFlow flowable

text \<open>\<^verbatim>\<open>det.get(k, 'N/A')\<close> on the dictionary of the details, a list of items.\<close>

definition det_get :: "(string \<times> string) list \<Rightarrow> string \<Rightarrow> string \<Rightarrow> string" where
  "det_get det k dflt = (case map_of det k of Some v \<Rightarrow> v | None \<Rightarrow> dflt)"

definition left_rows :: "(string \<times> string) list \<Rightarrow> cell list list" where
  "left_rows det =
     [[CellText ''Name:'', CellText (det_get det ''patientName'' ''N/A'')],
      [CellText ''ID:'', CellText (det_get det ''patientId'' ''N/A'')],
      [CellText ''Gender:'', CellText (det_get det ''gender'' ''N/A'')],
      [CellText ''Age:'', CellText (det_get det ''age'' ''N/A'')],
      [CellText ''Location:'', CellText (det_get det ''location'' ''N/A'')]]"

definition right_rows :: "(string \<times> string) list \<Rightarrow> cell list list" where
  "right_rows det =
     [[CellText ''Exam Date:'', CellText (det_get det ''dateOfExam'' ''N/A'')],
      [CellText ''Physician:'', CellText (det_get det ''referredPhysician'' ''N/A'')],
      [CellText ''Radiologist:'', CellText (det_get det ''radiologist'' ''N/A'')],
      [CellText ''Exam Type:'', CellText (det_get det ''examType'' ''N/A'')],
      [CellText ''Body Part:'', CellText (det_get det ''bodyPart'' ''N/A'')]]"

text \<open>An f-string renders a string as it is and any other value through \<^verbatim>\<open>str\<close>.\<close>

definition format_value :: "env \<Rightarrow> json \<Rightarrow> string" where
  "format_value E v = (case v of JStr s \<Rightarrow> s | _ \<Rightarrow> py_str E v)"

text \<open>The loop of lines 198 and 199, \<^verbatim>\<open>enumerate(ab_list, 1)\<close> counting from \<open>i\<close>.\<close>

fun finding_lines :: "env \<Rightarrow> nat \<Rightarrow> json list \<Rightarrow> exn + flowable list" where
  "finding_lines E i [] = Inr []"
| "finding_lines E i (ab # rest) =
     (case py_get ab ''name'' (JStr ''Unnamed'') of
        Inl e \<Rightarrow> Inl e
      | Inr v \<Rightarrow>
          (case finding_lines E (Suc i) rest of
             Inl e \<Rightarrow> Inl e
           | Inr ls \<Rightarrow>
               Inr (Paragraph (string_of_nat i @ ''. '' @ format_value E v) CustomNormal # ls)))"

text \<open>Lines 196 to 201.\<close>

definition findings :: "env \<Rightarrow> bool \<Rightarrow> json list \<Rightarrow> exn + flowable list" where
  "findings E abnormal ab_list =
     (if abnormal \<and> ab_list \<noteq> [] then
        (case finding_lines E 1 ab_list of
           Inl e \<Rightarrow> Inl e
         | Inr ls \<Rightarrow> Inr (Paragraph ''Abnormalities:'' SubHeader # ls))
      else Inr [Paragraph ''Normal'' CustomNormal])"

text \<open>Lines 162 to 192: what precedes the findings.\<close>

definition elems_before :: "(string \<times> string) list \<Rightarrow> flowable list" where
  "elems_before det =
     [Spacer 1 24,
      Paragraph ''CXR Medical Report'' Header,
      Spacer 1 12,
      Paragraph ''PATIENT DETAILS'' SectionHeader,
      Table [[CellFlow (Table (left_rows det)), CellFlow (Table (right_rows det))]],
      Spacer 1 12,
      Paragraph ''FINDINGS'' SectionHeader]"

text \<open>Lines 204 to 228: what follows them, with the two images read from the store.\<close>

definition elems_after :: "heap \<Rightarrow> addr \<Rightarrow> addr \<Rightarrow> (string \<times> string) list \<Rightarrow> flowable list" where
  "elems_after st orig ann det =
     [Spacer 1 12,
      Paragraph ''TB Possibility:'' SubHeader,
      Paragraph (det_get det ''tbPossibility'' ''N/A'') CustomNormal,
      Spacer 1 12,
      Paragraph ''DOCTOR NOTES'' SectionHeader,
      Paragraph (det_get det ''doctorNotes'' ''N/A'') CustomNormal,
      PageBreak,
      Paragraph ''Original X-ray Image'' SectionHeader,
      RLImage (objs st orig) (6 * inch) (6 * inch),
      PageBreak,
      Paragraph ''Annotated X-ray Image'' SectionHeader,
      RLImage (objs st ann) (6 * inch) (6 * inch)]"

text \<open>
  \<^verbatim>\<open>doc.build\<close> lays the flowables out on pages and calls the decorator once for
  each page. A page ends at a \<open>PageBreak\<close>; that the layout engine also starts a page
  when a page is full is not modelled.
\<close>

fun split_pages :: "flowable list \<Rightarrow> flowable list list" where
  "split_pages [] = [[]]"
| "split_pages (f # fs) =
     (case split_pages fs of
        [] \<Rightarrow> [[f]]
      | p # ps \<Rightarrow> if f = PageBreak then [] # p # ps else (f # p) # ps)"

record page =
  page_content :: "flowable list"
  page_canvas :: "canvas_op list"

fun build_pages :: "env \<Rightarrow> doc_template \<Rightarrow> nat \<Rightarrow> flowable list list \<Rightarrow> page list" where
  "build_pages E doc k [] = []"
| "build_pages E doc k (p # ps) =
     \<lparr>page_content = p, page_canvas = add_page_decorations E doc k\<rparr> # build_pages E doc (Suc k) ps"

definition build :: "env \<Rightarrow> doc_template \<Rightarrow> flowable list \<Rightarrow> page list" where
  "build E doc elems = build_pages E doc 1 (split_pages elems)"

definition generate_pdf_report ::
  "env \<Rightarrow> heap \<Rightarrow> addr \<Rightarrow> addr \<Rightarrow> (string \<times> string) list \<Rightarrow> bool \<Rightarrow> json list \<Rightarrow> error + page list" where
  "generate_pdf_report E st orig ann det abnormal ab_list =
     (let doc = \<lparr>leftMargin = (3 / 4) * inch, rightMargin = (3 / 4) * inch,
                 topMargin = 1 * inch, bottomMargin = 1 * inch\<rparr>
      in case findings E abnormal ab_list of
           Inl e \<Rightarrow> Inl (Unhandled e)
         | Inr fs \<Rightarrow> Inr (build E doc (elems_before det @ fs @ elems_after st orig ann det)))"

section \<open>The endpoint: \<^verbatim>\<open>create_report\<close>\<close>

text \<open>
  A form field the request leaves out is \<open>None\<close> and takes the default of its
  \<^verbatim>\<open>Form(...)\<close> declaration.
\<close>

record request =
  rq_file :: upload
  rq_patientName :: "string option"
  rq_dateOfExam :: "string option"
  rq_patientId :: "string option"
  rq_gender :: "string option"
  rq_age :: "string option"
  rq_location :: "string option"
  rq_referredPhysician :: "string option"
  rq_radiologist :: "string option"
  rq_examType :: "string option"
  rq_bodyPart :: "string option"
  rq_tbPossibility :: "string option"
  rq_doctorNotes :: "string option"
  rq_isAbnormal :: "bool option"
  rq_abnormalities :: "string option"

definition form :: "'a option \<Rightarrow> 'a \<Rightarrow> 'a" where
  "form v dflt = (case v of Some x \<Rightarrow> x | None \<Rightarrow> dflt)"

text \<open>Lines 254 to 259.\<close>

definition parse_abnormalities :: "env \<Rightarrow> string \<Rightarrow> error + json list" where
  "parse_abnormalities E s =
     (case json_loads E s of
        Some (JArr ab_list) \<Rightarrow> Inr ab_list
      | _ \<Rightarrow> Inl (HTTPException 400 ''Invalid abnormalities''))"

text \<open>Lines 262 to 275: every key is set, to the field's value or to its default.\<close>

definition details :: "request \<Rightarrow> (string \<times> string) list" where
  "details req =
     [(''patientName'', form (rq_patientName req) []),
      (''dateOfExam'', form (rq_dateOfExam req) []),
      (''patientId'', form (rq_patientId req) []),
      (''gender'', form (rq_gender req) []),
      (''age'', form (rq_age req) []),
      (''location'', form (rq_location req) []),
      (''referredPhysician'', form (rq_referredPhysician req) []),
      (''radiologist'', form (rq_radiologist req) []),
      (''examType'', form (rq_examType req) []),
      (''bodyPart'', form (rq_bodyPart req) []),
      (''tbPossibility'', form (rq_tbPossibility req) []),
      (''doctorNotes'', form (rq_doctorNotes req) [])]"

definition valid_suffix :: "string \<Rightarrow> bool" where
  "valid_suffix name =
     (endswith name ''.dcm'' \<or> endswith name ''.dicom'' \<or> endswith name ''.dic''
      \<or> endswith name ''.png'')"

definition create_report :: "env \<Rightarrow> request \<Rightarrow> heap \<Rightarrow> error + page list" where
  "create_report E req st =
     (if \<not> valid_suffix (lower (filename (rq_file req))) then
        Inl (HTTPException 400 ''Invalid file format'')
      else
        (case parse_abnormalities E (form (rq_abnormalities req) ''[]'') of
           Inl e \<Rightarrow> Inl e
         | Inr ab_list \<Rightarrow>
             (case process_image E (rq_file req) ab_list st of
                Inl e \<Rightarrow> Inl e
              | Inr ((orig, ann), st') \<Rightarrow>
                  generate_pdf_report E st' orig ann (details req)
                    (form (rq_isAbnormal req) False) ab_list)))"

section \<open>Concrete inputs\<close>

text \<open>
  One environment, store and request on which the functions are evaluated below. The
  parameters are given on the inputs used: the decoders reject an empty payload, the
  logo is missing on disk, and the conversion of not-a-number to a byte gives 0.
\<close>

definition demo_dicom :: dicom where
  "demo_dicom = \<lparr>pixel_array = Inr [[0, 5], [10, 20]], PhotometricInterpretation = Some ''MONOCHROME2''\<rparr>"

definition demo_env :: env where
  "demo_env =
     \<lparr>dcmread = (\<lambda>bs. if bs = [] then Inl InvalidDicomError else Inr demo_dicom),
      image_open = (\<lambda>bs. if bs = [] then Inl UnidentifiedImageError else Inr (Raster 500 300 ''L'' bs)),
      json_loads = (\<lambda>s. if s = ''[]'' then Some (JArr [])
                         else if s = ''[{}]'' then Some (JArr [JObj []])
                         else if s = ''{}'' then Some (JObj [])
                         else None),
      float_of_str = (\<lambda>s. if s = ''12'' then Some 12 else None),
      py_str = (\<lambda>v. case v of JNull \<Rightarrow> ''None'' | JBool b \<Rightarrow> (if b then ''True'' else ''False'')
                         | _ \<Rightarrow> []),
      cast_undefined = (\<lambda>f. 0),
      logo_open = Inl FileNotFoundError,
      now = \<lparr>dt_year = 2024, dt_month = 3, dt_day = 7, dt_hour = 9, dt_minute = 5, dt_second = 30\<rparr>\<rparr>"

definition demo_heap :: heap where
  "demo_heap = \<lparr>objs = (\<lambda>a. Raster 0 0 [] []), next_addr = 0\<rparr>"

definition demo_png :: upload where
  "demo_png = \<lparr>filename = ''chest.PNG'', file_bytes = [1, 2, 3]\<rparr>"

definition nodule :: json where
  "nodule = JObj [(''name'', JStr ''Nodule''),
                  (''bbox'', JObj [(''x'', JInt 100), (''y'', JInt 50),
                                   (''width'', JInt 40), (''height'', JInt 30)])]"



definition demo_request :: request where
  "demo_request =
     \<lparr>rq_file = demo_png,
      rq_patientName = None, rq_dateOfExam = None, rq_patientId = None, rq_gender = None,
      rq_age = None, rq_location = None, rq_referredPhysician = None, rq_radiologist = None,
      rq_examType = None, rq_bodyPart = None, rq_tbPossibility = None, rq_doctorNotes = None,
      rq_isAbnormal = Some True, rq_abnormalities = Some ''[{}]''\<rparr>"

section \<open>Properties of the normaliser\<close>

lemma floor_rat_numeral: "\<lfloor>(numeral a / numeral b)::rat\<rfloor> = numeral a div numeral b"
  using floor_divide_of_int_eq[of "numeral a" "numeral b", where ?'a = rat] by simp

lemma fold_min_Min: "fold min vs (v::rat) = Min (set (v # vs))"
  by (simp only: Min.set_eq_fold)

lemma fold_max_Max: "fold max vs (v::rat) = Max (set (v # vs))"
  by (simp only: Max.set_eq_fold)

lemma unit_times_255: "0 \<le> (r::rat) \<Longrightarrow> r \<le> 1 \<Longrightarrow> 0 \<le> r * 255 \<and> r * 255 < 256"
  by simp

lemma sample_in_range:
  assumes "mn < mx" "mn \<le> x" "x \<le> mx"
  shows "astype_uint8 E (np_mul (np_div (x - mn) (mx - mn)) 255) = word_of_int \<lfloor>(x - mn) / (mx - mn) * 255\<rfloor>"
proof -
  define r where "r = (x - mn) / (mx - mn)"
  have d: "mx - mn \<noteq> 0" using assms by simp
  have "0 \<le> r" using assms by (simp add: r_def)
  moreover have "r \<le> 1" using assms by (simp add: r_def divide_le_eq_1)
  ultimately have "0 \<le> r * 255 \<and> r * 255 < 256" by (rule unit_times_255)
  moreover have "np_mul (np_div (x - mn) (mx - mn)) 255 = Fin (r * 255)"
    using d by (simp add: np_div_def r_def)
  ultimately show ?thesis by (simp add: r_def)
qed

text \<open>
  On a buffer that is not flat every quotient lies between 0 and 1, so every sample has
  a defined byte: the floor of \<open>(x - min) / (max - min) * 255\<close>. The minimum gives 0
  and the maximum 255, and both occur in the output.
\<close>

lemma rescale_nonflat:
  assumes "concat arr = v # vs" and "fold min vs v < fold max vs v"
  shows "rescale E arr =
    Inr (map (map (\<lambda>x. word_of_int \<lfloor>(x - fold min vs v) / (fold max vs v - fold min vs v) * 255\<rfloor>)) arr)"
proof -
  have "\<And>row x. row \<in> set arr \<Longrightarrow> x \<in> set row \<Longrightarrow> fold min vs v \<le> x \<and> x \<le> fold max vs v"
  proof -
    fix row x assume "row \<in> set arr" "x \<in> set row"
    then have "x \<in> set (concat arr)" by auto
    then have "x \<in> set (v # vs)" using assms(1) by simp
    then show "fold min vs v \<le> x \<and> x \<le> fold max vs v"
      unfolding fold_min_Min fold_max_Max by simp
  qed
  then show ?thesis
    using assms by (simp add: rescale_def Let_def sample_in_range)
qed

lemma rescale_range:
  assumes "concat arr = v # vs" and "fold min vs v < fold max vs v"
  shows "\<exists>out. rescale E arr = Inr out \<and> 0 \<in> set (concat out) \<and> 255 \<in> set (concat out)"
proof -
  let ?mn = "fold min vs v" and ?mx = "fold max vs v"
  define g :: "rat \<Rightarrow> 8 word"
    where "g = (\<lambda>x. word_of_int \<lfloor>(x - ?mn) / (?mx - ?mn) * 255\<rfloor>)"
  have out: "rescale E arr = Inr (map (map g) arr)"
    unfolding g_def using assms by (rule rescale_nonflat)
  have cc: "set (concat (map (map g) arr)) = g ` set (v # vs)"
    using assms(1) by (simp only: map_concat [symmetric] set_map)
  have "?mn \<in> set (v # vs)" unfolding fold_min_Min by (rule Min_in) simp_all
  then have "g ?mn \<in> g ` set (v # vs)" by (rule imageI)
  moreover have "g ?mn = 0" by (simp add: g_def)
  ultimately have z: "0 \<in> set (concat (map (map g) arr))" by (simp only: cc)
  have "?mx \<in> set (v # vs)" unfolding fold_max_Max by (rule Max_in) simp_all
  then have "g ?mx \<in> g ` set (v # vs)" by (rule imageI)
  moreover have "g ?mx = 255"
  proof -
    have "(?mx - ?mn) / (?mx - ?mn) = 1" using assms(2) by simp
    then show ?thesis unfolding g_def by (simp only: mult_1 floor_numeral) simp
  qed
  ultimately have m: "255 \<in> set (concat (map (map g) arr))" by (simp only: cc)
  from out z m show ?thesis by blast
qed

text \<open>
  Claim C1: the normaliser should map the minimum sample to 0 and the maximum to 255,
  and on a flat buffer (maximum equal to minimum) it should not divide by zero but yield
  a defined fallback. The first half holds, as \<open>rescale_range\<close> shows for every buffer
  that is not flat. The second does not: the code has no guard. On the flat buffer whose
  samples are all 7 the divisor \<open>max - min\<close> is 0, numpy leaves not-a-number for
  \<open>0 / 0\<close> in every sample, and the byte each becomes is whatever the conversion of
  not-a-number gives on the platform.
\<close>

theorem process_dicom_flat_image:
  "np_div (7 - 7) (7 - 7) = NaN \<and>
   process_dicom (E\<lparr>dcmread := \<lambda>b. Inr \<lparr>pixel_array = Inr [[7, 7], [7, 7]],
                      PhotometricInterpretation = Some ''MONOCHROME2''\<rparr>\<rparr>) bs =
     Inr (Raster 2 2 ''L'' [cast_undefined E NaN, cast_undefined E NaN,
                            cast_undefined E NaN, cast_undefined E NaN])"
  by (simp add: process_dicom_def rescale_def np_div_def fromarray_def)


text \<open>On 8 bits, \<^verbatim>\<open>np.invert\<close> is \<open>255 - v\<close>, and it reverses the order.\<close>

lemma not_255: "NOT (v::8 word) = 255 - v"
proof -
  have "(255::8 word) = - 1" by simp
  then show ?thesis by (simp add: not_eq_complement)
qed

lemma unat_255_minus: "unat (255 - (v::8 word)) = 255 - unat v"
proof -
  have "v \<le> 255" by (simp add: word_le_nat_alt) (use unsigned_less[of v, where ?'a = nat] in simp)
  then show ?thesis by (simp add: unat_sub)
qed

lemma le_255_minus: "((a::8 word) \<le> b) = (255 - b \<le> 255 - a)"
  by (simp add: word_le_nat_alt unat_255_minus) (use unsigned_less[of a, where ?'a = nat] unsigned_less[of b, where ?'a = nat] in auto)

lemma astype_uint8_cong: "cast_undefined E' = cast_undefined E \<Longrightarrow> astype_uint8 E' x = astype_uint8 E x"
  by (cases x) simp_all

lemma rescale_cong:
  assumes "cast_undefined E' = cast_undefined E"
  shows "rescale E' arr = rescale E arr"
proof -
  have "astype_uint8 E' = astype_uint8 E"
    by (rule ext) (rule astype_uint8_cong [OF assms])
  then show ?thesis by (cases "concat arr") (simp_all only: rescale_def list.case)
qed

lemma fromarray_invert: "fromarray (np_invert arr8) =
   (case fromarray arr8 of Raster w h m u \<Rightarrow> Raster w h m (map (\<lambda>v. 255 - v) u) | i \<Rightarrow> i)"
  by (cases arr8) (simp_all add: fromarray_def np_invert_def map_concat not_255)


text \<open>
  Claim C5: when the data set is flagged \<^verbatim>\<open>MONOCHROME1\<close>, every sample of the
  buffer that the min-max rescale has already brought to 8 bits is replaced by 255 minus
  its value, so on the same source data the flagged output is the unflagged output
  inverted sample by sample and the order of any two samples is reversed.
\<close>

theorem process_dicom_polarity:
  assumes "process_dicom (E\<lparr>dcmread := \<lambda>b. Inr (d\<lparr>PhotometricInterpretation := Some ''MONOCHROME2''\<rparr>)\<rparr>) bs
             = Inr (Raster w h m u)"
  shows "\<exists>f. process_dicom (E\<lparr>dcmread := \<lambda>b. Inr (d\<lparr>PhotometricInterpretation := Some ''MONOCHROME1''\<rparr>)\<rparr>) bs
             = Inr (Raster w h m f)
           \<and> f = map (\<lambda>v. 255 - v) u
           \<and> (\<forall>i<length u. unat (f ! i) = 255 - unat (u ! i))
           \<and> (\<forall>i<length u. \<forall>j<length u. (u ! i \<le> u ! j) = (f ! j \<le> f ! i))"
proof -
  let ?E0 = "E\<lparr>dcmread := \<lambda>b. Inr (d\<lparr>PhotometricInterpretation := Some ''MONOCHROME2''\<rparr>)\<rparr>"
  let ?E1 = "E\<lparr>dcmread := \<lambda>b. Inr (d\<lparr>PhotometricInterpretation := Some ''MONOCHROME1''\<rparr>)\<rparr>"
  have r: "rescale ?E1 arr = rescale ?E0 arr" for arr by (rule rescale_cong) simp
  from assms obtain arr arr8 where a: "pixel_array d = Inr arr" "rescale ?E0 arr = Inr arr8"
      "fromarray arr8 = Raster w h m u"
    by (auto simp: process_dicom_def split: sum.splits)
  have "process_dicom ?E1 bs = Inr (Raster w h m (map (\<lambda>v. 255 - v) u))"
    using a by (simp add: process_dicom_def r fromarray_invert)
  moreover have "\<forall>i<length u. unat (map (\<lambda>v. 255 - v) u ! i) = 255 - unat (u ! i)"
    by (simp add: unat_255_minus)
  moreover have "\<forall>i<length u. \<forall>j<length u.
      (u ! i \<le> u ! j) = (map (\<lambda>v. 255 - v) u ! j \<le> map (\<lambda>v. 255 - v) u ! i)"
    by (simp add: le_255_minus [symmetric])
  ultimately show ?thesis by blast
qed

theorem process_dicom_polarity_witness:
  "process_dicom (demo_env\<lparr>dcmread := \<lambda>b. Inr (demo_dicom\<lparr>PhotometricInterpretation := Some ''MONOCHROME2''\<rparr>)\<rparr>) [1]
     = Inr (Raster 2 2 ''L'' [0, 63, 127, 255])
   \<and> process_dicom (demo_env\<lparr>dcmread := \<lambda>b. Inr (demo_dicom\<lparr>PhotometricInterpretation := Some ''MONOCHROME1''\<rparr>)\<rparr>) [1]
     = Inr (Raster 2 2 ''L'' [255, 192, 128, 0])"
proof -
  have h: "process_dicom (demo_env\<lparr>dcmread := \<lambda>b. Inr (demo_dicom\<lparr>PhotometricInterpretation := Some ''MONOCHROME2''\<rparr>)\<rparr>) [1]
     = Inr (Raster 2 2 ''L'' [0, 63, 127, 255])"
    by (simp add: process_dicom_def demo_dicom_def rescale_def np_div_def fromarray_def floor_rat_numeral)
  from process_dicom_polarity [OF h] show ?thesis using h by simp
qed

section \<open>Properties of the annotation\<close>

text \<open>Frame: no drawing call writes at another address than that of the annotated copy.\<close>

lemma draw_on_other: "b \<noteq> a \<Longrightarrow> objs (draw_on a d h) b = objs h b"
  by (simp add: draw_on_def)

lemma draw_box_frame:
  assumes "draw_box ann label x y w h st = Inr st'" and "b \<noteq> ann"
  shows "objs st' b = objs st b"
  using assms
  by (auto simp: draw_box_def Let_def draw_on_other split: if_splits json.splits)

lemma draw_one_frame:
  assumes "draw_one E sx sy ann ab st = Inr st'" and "b \<noteq> ann"
  shows "objs st' b = objs st b"
proof -
  from assms(1) obtain bbox label x y w h where "draw_box ann label x y w h st = Inr st'"
    by (auto simp: draw_one_def try_body_def split: sum.splits prod.splits)
  then show ?thesis using assms(2) by (rule draw_box_frame)
qed

lemma draw_all_frame:
  assumes "draw_all E sx sy ann abl st = Inr st'" and "b \<noteq> ann"
  shows "objs st' b = objs st b"
  using assms
proof (induction abl arbitrary: st)
  case Nil
  then show ?case by simp
next
  case (Cons ab rest)
  from Cons.prems(1) obtain st1 where s1: "draw_one E sx sy ann ab st = Inr st1"
    and s2: "draw_all E sx sy ann rest st1 = Inr st'"
    by (auto split: sum.splits)
  from Cons.IH [OF s2 Cons.prems(2)] draw_one_frame [OF s1 Cons.prems(2)]
  show ?case by simp
qed

lemma annotate_unfold:
  "annotate E img abl st =
     (case scale_factors (fst (pil_size img)) (snd (pil_size img)) of
        Inl e \<Rightarrow> Inl (Unhandled e)
      | Inr f \<Rightarrow>
          (case draw_all E (fst f) (snd f) (Suc (next_addr st)) abl
                  (st\<lparr>objs := (objs st)(next_addr st := Converted ''RGB'' (Resized target target img),
                                  Suc (next_addr st) := Converted ''RGB'' (Resized target target img)),
                      next_addr := Suc (Suc (next_addr st))\<rparr>) of
             Inl e \<Rightarrow> Inl e
           | Inr st3 \<Rightarrow> Inr ((next_addr st, Suc (next_addr st)), st3)))"
proof (cases "pil_size img")
  case (Pair ow oh)
  show ?thesis
  proof (cases "scale_factors ow oh")
    case (Inl e)
    with Pair show ?thesis by (simp add: annotate_def alloc_def copy_obj_def)
  next
    case (Inr f)
    with Pair show ?thesis
      by (cases f) (simp add: annotate_def alloc_def copy_obj_def split: sum.split)
  qed
qed

text \<open>
  Claim C9: \<^verbatim>\<open>process_image\<close> returns two distinct objects, the resized image and
  the annotated copy. Whatever the list of abnormalities is, the run leaves the store as
  the run with no abnormality leaves it, except at the address of the annotated copy: the
  resized image is the converted, resized source, untouched by the drawing, and the copy
  starts out equal to it.
\<close>

theorem annotation_leaves_original:
  assumes "process_image E file abnormalities st = Inr ((orig, ann), st')"
  shows "orig \<noteq> ann \<and>
         (\<exists>img st0. load_image E file = Inr img
            \<and> process_image E file [] st = Inr ((orig, ann), st0)
            \<and> objs st0 orig = Converted ''RGB'' (Resized target target img)
            \<and> objs st0 ann = objs st0 orig
            \<and> (\<forall>b. b \<noteq> ann \<longrightarrow> objs st' b = objs st0 b))"
proof -
  from assms obtain img where img: "load_image E file = Inr img"
    and an: "annotate E img abnormalities st = Inr ((orig, ann), st')"
    by (auto simp: process_image_def split: sum.splits)
  define st0 where "st0 = st\<lparr>objs := (objs st)(next_addr st := Converted ''RGB'' (Resized target target img),
                                  Suc (next_addr st) := Converted ''RGB'' (Resized target target img)),
              next_addr := Suc (Suc (next_addr st))\<rparr>"
  from an obtain f where sf: "scale_factors (fst (pil_size img)) (snd (pil_size img)) = Inr f"
    and o: "orig = next_addr st" and a: "ann = Suc (next_addr st)"
    and dr: "draw_all E (fst f) (snd f) (Suc (next_addr st)) abnormalities st0 = Inr st'"
    unfolding annotate_unfold st0_def by (auto split: sum.splits)
  have e: "process_image E file [] st = Inr ((orig, ann), st0)"
    using img sf by (simp add: process_image_def annotate_unfold o a st0_def)
  have fr: "\<forall>b. b \<noteq> ann \<longrightarrow> objs st' b = objs st0 b"
    using draw_all_frame [OF dr] a by blast
  have c: "objs st0 orig = Converted ''RGB'' (Resized target target img)" "objs st0 ann = objs st0 orig"
    by (simp_all add: st0_def o a)
  have "orig \<noteq> ann" using o a by simp
  moreover from img e c fr have "\<exists>img st0. load_image E file = Inr img
            \<and> process_image E file [] st = Inr ((orig, ann), st0)
            \<and> objs st0 orig = Converted ''RGB'' (Resized target target img)
            \<and> objs st0 ann = objs st0 orig
            \<and> (\<forall>b. b \<noteq> ann \<longrightarrow> objs st' b = objs st0 b)"
    by (intro exI conjI)
  ultimately show ?thesis by (rule conjI)
qed

theorem annotation_leaves_original_witness:
  "\<exists>st'. process_image demo_env demo_png [nodule] demo_heap = Inr ((0, 1), st')
     \<and> objs st' 0 = Converted ''RGB'' (Resized 1024 1024 (Raster 500 300 ''L'' [1, 2, 3]))
     \<and> objs st' 1 \<noteq> objs st' 0"
proof -
  have ld: "load_image demo_env demo_png = Inr (Raster 500 300 ''L'' [1, 2, 3])"
    by (simp add: load_image_def demo_png_def demo_env_def lower_def lower_char_def rsplit_last_def)
  have "\<exists>st'. process_image demo_env demo_png [nodule] demo_heap = Inr ((0, 1), st')"
    by (simp add: process_image_def ld annotate_unfold scale_factors_def target_def demo_heap_def
          draw_one_def nodule_def try_body_def scaled_bbox_def bbox_float_def draw_box_def)
  then obtain st' where r: "process_image demo_env demo_png [nodule] demo_heap = Inr ((0, 1), st')" ..
  from annotation_leaves_original [OF r] ld
  obtain st0 where "process_image demo_env demo_png [] demo_heap = Inr ((0, 1), st0)"
    "objs st0 0 = Converted ''RGB'' (Resized target target (Raster 500 300 ''L'' [1, 2, 3]))"
    "objs st' 0 = objs st0 0" by auto
  moreover have "objs st' 1 \<noteq> objs st' 0"
    using r
    by (auto simp: process_image_def ld annotate_unfold scale_factors_def target_def demo_heap_def
          draw_one_def nodule_def try_body_def scaled_bbox_def bbox_float_def draw_box_def draw_on_def)
  ultimately show ?thesis using r by (simp add: target_def)
qed









section \<open>Properties of the document\<close>








text \<open>
  The findings hold no page break, so the document has three pages whenever the
  findings can be written.
\<close>

lemma finding_lines_no_break: "finding_lines E i ab_list = Inr ls \<Longrightarrow> PageBreak \<notin> set ls"
proof (induction ab_list arbitrary: i ls)
  case Nil
  then show ?case by simp
next
  case (Cons ab rest)
  from Cons.prems obtain v ls' where
    r: "finding_lines E (Suc i) rest = Inr ls'"
    and l: "ls = Paragraph (string_of_nat i @ ''. '' @ format_value E v) CustomNormal # ls'"
    by (auto split: sum.splits)
  from Cons.IH [OF r] show ?case unfolding l by simp
qed

lemma findings_no_break: "findings E abnormal ab_list = Inr fs \<Longrightarrow> PageBreak \<notin> set fs"
  by (auto simp: findings_def dest: finding_lines_no_break split: if_splits sum.splits)

lemma split_pages_append:
  "PageBreak \<notin> set xs \<Longrightarrow>
   split_pages (xs @ ys) = (xs @ hd (split_pages ys)) # tl (split_pages ys)"
proof (induction xs)
  case Nil
  then show ?case by (cases ys) (simp_all split: list.splits)
next
  case (Cons x xs)
  then show ?case by auto
qed

lemma generate_pages:
  assumes "findings E abnormal ab_list = Inr fs"
  shows "generate_pdf_report E st orig ann det abnormal ab_list =
     Inr [\<lparr>page_content = elems_before det @ fs @ take 6 (elems_after st orig ann det),
           page_canvas = add_page_decorations E
              \<lparr>leftMargin = 54, rightMargin = 54, topMargin = 72, bottomMargin = 72\<rparr> 1\<rparr>,
          \<lparr>page_content = [Paragraph ''Original X-ray Image'' SectionHeader,
                           RLImage (objs st orig) 432 432],
           page_canvas = add_page_decorations E
              \<lparr>leftMargin = 54, rightMargin = 54, topMargin = 72, bottomMargin = 72\<rparr> 2\<rparr>,
          \<lparr>page_content = [Paragraph ''Annotated X-ray Image'' SectionHeader,
                           RLImage (objs st ann) 432 432],
           page_canvas = add_page_decorations E
              \<lparr>leftMargin = 54, rightMargin = 54, topMargin = 72, bottomMargin = 72\<rparr> 3\<rparr>]"
proof -
  have nb: "PageBreak \<notin> set (elems_before det @ fs)"
    using findings_no_break [OF assms] by (simp add: elems_before_def)
  have sp: "split_pages (elems_after st orig ann det) =
     [take 6 (elems_after st orig ann det),
      [Paragraph ''Original X-ray Image'' SectionHeader, RLImage (objs st orig) 432 432],
      [Paragraph ''Annotated X-ray Image'' SectionHeader, RLImage (objs st ann) 432 432]]"
    by (simp add: elems_after_def inch_def)
  have "split_pages (elems_before det @ fs @ elems_after st orig ann det) =
     [elems_before det @ fs @ take 6 (elems_after st orig ann det),
      [Paragraph ''Original X-ray Image'' SectionHeader, RLImage (objs st orig) 432 432],
      [Paragraph ''Annotated X-ray Image'' SectionHeader, RLImage (objs st ann) 432 432]]"
    using split_pages_append [OF nb, of "elems_after st orig ann det"] by (simp add: sp)
  then show ?thesis
    using assms by (simp add: generate_pdf_report_def build_def inch_def numeral_2_eq_2 numeral_3_eq_3 Let_def)
qed

lemma details_rows:
  "left_rows (details req) =
     [[CellText ''Name:'', CellText (form (rq_patientName req) [])],
      [CellText ''ID:'', CellText (form (rq_patientId req) [])],
      [CellText ''Gender:'', CellText (form (rq_gender req) [])],
      [CellText ''Age:'', CellText (form (rq_age req) [])],
      [CellText ''Location:'', CellText (form (rq_location req) [])]]"
  "right_rows (details req) =
     [[CellText ''Exam Date:'', CellText (form (rq_dateOfExam req) [])],
      [CellText ''Physician:'', CellText (form (rq_referredPhysician req) [])],
      [CellText ''Radiologist:'', CellText (form (rq_radiologist req) [])],
      [CellText ''Exam Type:'', CellText (form (rq_examType req) [])],
      [CellText ''Body Part:'', CellText (form (rq_bodyPart req) [])]]"
  by (simp_all add: left_rows_def right_rows_def details_def det_get_def)

lemma absent_key_default:
  "map_of det ''patientName'' = None \<Longrightarrow> left_rows det ! 0 = [CellText ''Name:'', CellText ''N/A'']"
  by (simp add: left_rows_def det_get_def)

lemma demo_suffix: "valid_suffix (lower (filename (rq_file demo_request)))"
  by (simp add: demo_request_def demo_png_def lower_def lower_char_def valid_suffix_def endswith_def)

lemma demo_load: "load_image demo_env demo_png = Inr (Raster 500 300 ''L'' [1, 2, 3])"
  by (simp add: load_image_def demo_png_def demo_env_def lower_def lower_char_def rsplit_last_def)

text \<open>
  Claim C7: a patient-detail field that the request leaves out should be rendered as
  \<open>N/A\<close>. \<^verbatim>\<open>generate_pdf_report\<close> has that default for a key missing from the
  dictionary (lemma \<open>absent_key_default\<close>), but \<^verbatim>\<open>create_report\<close> sets every key,
  to the empty string when the field is left out (lemma \<open>details_rows\<close>). On the
  request \<open>demo_request\<close>, which leaves out all ten fields, the table of the first page
  has ten empty values.
\<close>

theorem absent_fields_render_empty:
  "\<exists>p1 p2 p3. create_report demo_env demo_request demo_heap = Inr [p1, p2, p3]
     \<and> page_content p1 ! 4 =
         Table [[CellFlow (Table [[CellText ''Name:'', CellText []],
                                  [CellText ''ID:'', CellText []],
                                  [CellText ''Gender:'', CellText []],
                                  [CellText ''Age:'', CellText []],
                                  [CellText ''Location:'', CellText []]]),
                 CellFlow (Table [[CellText ''Exam Date:'', CellText []],
                                  [CellText ''Physician:'', CellText []],
                                  [CellText ''Radiologist:'', CellText []],
                                  [CellText ''Exam Type:'', CellText []],
                                  [CellText ''Body Part:'', CellText []]])]]"
proof -
  have p: "parse_abnormalities demo_env (form (rq_abnormalities demo_request) ''[]'') = Inr [JObj []]"
    by (simp add: parse_abnormalities_def demo_request_def demo_env_def form_def)
  have "\<exists>st'. process_image demo_env (rq_file demo_request) [JObj []] demo_heap = Inr ((0, 1), st')"
    by (simp add: process_image_def demo_request_def demo_load annotate_unfold scale_factors_def
          target_def demo_heap_def draw_one_def try_body_def scaled_bbox_def bbox_float_def draw_box_def)
  then obtain st' where
    i: "process_image demo_env (rq_file demo_request) [JObj []] demo_heap = Inr ((0, 1), st')" ..
  have f: "findings demo_env (form (rq_isAbnormal demo_request) False) [JObj []] =
      Inr [Paragraph ''Abnormalities:'' SubHeader, Paragraph ''1. Unnamed'' CustomNormal]"
    by (simp add: findings_def demo_request_def form_def format_value_def string_of_nat.simps digit_char_def)
  have r: "form (rq_patientName demo_request) [] = []" "form (rq_patientId demo_request) [] = []"
    "form (rq_gender demo_request) [] = []" "form (rq_age demo_request) [] = []"
    "form (rq_location demo_request) [] = []" "form (rq_dateOfExam demo_request) [] = []"
    "form (rq_referredPhysician demo_request) [] = []" "form (rq_radiologist demo_request) [] = []"
    "form (rq_examType demo_request) [] = []" "form (rq_bodyPart demo_request) [] = []"
    by (simp_all add: demo_request_def form_def)
  show ?thesis
    using demo_suffix
    by (simp add: create_report_def p i generate_pages [OF f] elems_before_def details_rows r)
qed

text \<open>
  Claim C6: a payload that is not a valid instance of its declared format should be
  rejected as a client error on both paths. Only \<^verbatim>\<open>InvalidDicomError\<close> is caught, on
  the DICOM path, and answered with status 400. A file named \<^verbatim>\<open>scan.png\<close> that PIL
  cannot identify, and a DICOM file whose pixel data pydicom cannot decode, raise an
  exception that no handler of the module catches: the answer is status 500.
\<close>

theorem decode_errors_unhandled:
  "process_image (E\<lparr>image_open := \<lambda>b. Inl UnidentifiedImageError\<rparr>)
       \<lparr>filename = ''scan.png'', file_bytes = bs\<rparr> ab_list st
     = Inl (Unhandled UnidentifiedImageError)
   \<and> status_code (Unhandled UnidentifiedImageError) = 500
   \<and> process_image
       (E\<lparr>dcmread := \<lambda>b. Inr \<lparr>pixel_array = Inl NotImplementedError,
                                 PhotometricInterpretation = Some ''MONOCHROME2''\<rparr>\<rparr>)
       \<lparr>filename = ''scan.dcm'', file_bytes = bs\<rparr> ab_list st
     = Inl (Unhandled NotImplementedError)
   \<and> process_image (E\<lparr>dcmread := \<lambda>b. Inl InvalidDicomError\<rparr>)
       \<lparr>filename = ''scan.dcm'', file_bytes = bs\<rparr> ab_list st
     = Inl (HTTPException 400 ''DICOM processing error'')"
  by (simp add: process_image_def load_image_def lower_def lower_char_def rsplit_last_def
        process_dicom_def dicom_handler_def)





section \<open>Properties of the endpoint\<close>












end
